theory Spec2Isabelle
  imports Complex_Main
begin

section \<open>Tensors\<close>

text \<open>
  A dense tensor is a shape together with its entries in row-major order.  Entries are
  modelled as real numbers; rounding of floating-point arithmetic is outside the model.
\<close>

record tensor =
  shape :: "nat list"
  data :: "real list"

text \<open>All multi-indices of a shape, in row-major order, and the position of one of them.\<close>

fun indices :: "nat list \<Rightarrow> nat list list" where
  "indices [] = [[]]"
| "indices (n # ns) = map (\<lambda>(i, js). i # js) (List.product [0..<n] (indices ns))"

fun offset :: "nat list \<Rightarrow> nat list \<Rightarrow> nat" where
  "offset (n # ns) (i # js) = i * prod_list ns + offset ns js"
| "offset _ _ = 0"

definition in_range :: "nat list \<Rightarrow> nat list \<Rightarrow> bool" where
  "in_range s idx \<longleftrightarrow> list_all2 (<) idx s"

definition tabulate :: "nat list \<Rightarrow> (nat list \<Rightarrow> real) \<Rightarrow> tensor" where
  "tabulate s f = \<lparr>shape = s, data = map f (indices s)\<rparr>"

text \<open>Reading one entry; only meaningful for an index that is in range of the shape.\<close>

definition elem :: "tensor \<Rightarrow> nat list \<Rightarrow> real" where
  "elem t idx = data t ! offset (shape t) idx"

text \<open>
  Exceptions are values.  \<open>IndexError\<close> and \<open>RuntimeError\<close> are what the tensor library
  raises for too many indices and for incompatible shapes; \<open>Raised\<close> stands for any
  exception of a collaborator whose code is not part of this file.
\<close>

datatype error = IndexError | RuntimeError | Raised string

definition bind_err :: "error + 'a \<Rightarrow> ('a \<Rightarrow> error + 'b) \<Rightarrow> error + 'b" where
  "bind_err m f = (case m of Inl e \<Rightarrow> Inl e | Inr x \<Rightarrow> f x)"

subsection \<open>Broadcasting addition\<close>

text \<open>
  Shapes are aligned at their last dimension; two sizes are compatible when they are equal
  or one of them is 1.  \<open>broadcast_rev\<close> works on the reversed shapes.
\<close>

fun broadcast_rev :: "nat list \<Rightarrow> nat list \<Rightarrow> nat list option" where
  "broadcast_rev [] ys = Some ys"
| "broadcast_rev (x # xs) [] = Some (x # xs)"
| "broadcast_rev (x # xs) (y # ys) =
     (if x = y \<or> y = 1 then map_option ((#) x) (broadcast_rev xs ys)
      else if x = 1 then map_option ((#) y) (broadcast_rev xs ys)
      else None)"

definition broadcast_shapes :: "nat list \<Rightarrow> nat list \<Rightarrow> nat list option" where
  "broadcast_shapes a b = map_option rev (broadcast_rev (rev a) (rev b))"

text \<open>The index into an operand of shape \<open>s\<close> that a result index \<open>idx\<close> reads.\<close>

definition broadcast_index :: "nat list \<Rightarrow> nat list \<Rightarrow> nat list" where
  "broadcast_index s idx =
     map2 (\<lambda>d i. if d = 1 then 0 else i) s (drop (length idx - length s) idx)"

definition tensor_add :: "tensor \<Rightarrow> tensor \<Rightarrow> error + tensor" where
  "tensor_add a b =
     (case broadcast_shapes (shape a) (shape b) of
        None \<Rightarrow> Inl RuntimeError
      | Some s \<Rightarrow> Inr (tabulate s (\<lambda>idx.
          elem a (broadcast_index (shape a) idx) + elem b (broadcast_index (shape b) idx))))"

subsection \<open>Indexing with full slices and \<open>None\<close>\<close>

datatype index_item = Slice_all | NewAxis

fun getitem_shape :: "index_item list \<Rightarrow> nat list \<Rightarrow> nat list option" where
  "getitem_shape [] s = Some s"
| "getitem_shape (NewAxis # items) s = map_option ((#) 1) (getitem_shape items s)"
| "getitem_shape (Slice_all # items) [] = None"
| "getitem_shape (Slice_all # items) (d # s) = map_option ((#) d) (getitem_shape items s)"

fun getitem_index :: "index_item list \<Rightarrow> nat list \<Rightarrow> nat list" where
  "getitem_index (NewAxis # items) (i # idx) = getitem_index items idx"
| "getitem_index (Slice_all # items) (i # idx) = i # getitem_index items idx"
| "getitem_index _ idx = idx"

definition getitem :: "index_item list \<Rightarrow> tensor \<Rightarrow> error + tensor" where
  "getitem items t =
     (case getitem_shape items (shape t) of
        None \<Rightarrow> Inl IndexError
      | Some s \<Rightarrow> Inr (tabulate s (\<lambda>idx. elem t (getitem_index items idx))))"

section \<open>Collaborators\<close>

subsection \<open>Linear\<close>

text \<open>
  Modelled from the spec: the class \<open>Linear\<close> of \<open>src.models.components.primitives\<close> is not
  among the source files.  The spec describes it as a deterministic affine transform of the
  last dimension of any input tensor, with an optional bias term and no error condition
  beyond a shape mismatch.  The weight has shape \<open>[out_features, in_features]\<close>.
\<close>

record Linear =
  in_features :: nat
  out_features :: nat
  weight :: tensor
  bias :: "tensor option"

text \<open>
  The constructor takes the entries the parameters start with (\<open>w\<close> and \<open>b\<close>); the
  initialisation scheme is not part of the source.
\<close>

definition Linear_init ::
  "nat \<Rightarrow> nat \<Rightarrow> bool \<Rightarrow> (nat \<Rightarrow> nat \<Rightarrow> real) \<Rightarrow> (nat \<Rightarrow> real) \<Rightarrow> Linear" where
  "Linear_init c_in c_out use_bias w b =
     \<lparr>in_features = c_in, out_features = c_out,
      weight = tabulate [c_out, c_in] (\<lambda>idx. w (idx ! 0) (idx ! 1)),
      bias = (if use_bias then Some (tabulate [c_out] (\<lambda>idx. b (idx ! 0))) else None)\<rparr>"

text \<open>Channel \<open>c\<close> of the transform of the vector that \<open>x\<close> holds at position \<open>pre\<close>.\<close>

definition affine :: "Linear \<Rightarrow> tensor \<Rightarrow> nat list \<Rightarrow> nat \<Rightarrow> real" where
  "affine L x pre c =
     sum_list (map (\<lambda>k. elem (weight L) [c, k] * elem x (pre @ [k])) [0..<in_features L])
     + (case bias L of None \<Rightarrow> 0 | Some b \<Rightarrow> elem b [c])"

definition Linear_forward :: "Linear \<Rightarrow> tensor \<Rightarrow> error + tensor" where
  "Linear_forward L x =
     (if shape x = [] \<or> last (shape x) \<noteq> in_features L then Inl RuntimeError
      else Inr (tabulate (butlast (shape x) @ [out_features L])
                  (\<lambda>idx. affine L x (butlast idx) (last idx))))"

subsection \<open>Atom attention encoder and relative position encoding\<close>

text \<open>
  The classes \<open>AtomAttentionEncoder\<close> and \<open>RelativePositionEncoding\<close> are imported by the
  source file and defined elsewhere.  Each is a parameter here: its constructor and the
  forward function of the object it builds.  Of the encoder's output only the field
  \<open>token_single\<close> is read.
\<close>

type_synonym features = "string \<rightharpoonup> tensor"

record AtomAttentionEncoderOutput =
  token_single :: tensor

type_synonym AtomAttentionEncoder =
  "features \<Rightarrow> tensor option \<Rightarrow> error + AtomAttentionEncoderOutput"

type_synonym RelativePositionEncoding =
  "features \<Rightarrow> tensor option \<Rightarrow> error + tensor"

section \<open>Constructor arguments\<close>

text \<open>An argument with a default value is either omitted or given.\<close>

datatype 'a arg = Omitted | Given 'a

definition arg_or :: "'a \<Rightarrow> 'a arg \<Rightarrow> 'a" where
  "arg_or d a = (case a of Omitted \<Rightarrow> d | Given x \<Rightarrow> x)"

text \<open>
  Both classes take the same constructor arguments with the same defaults, and store each
  of them in a field of the same name.
\<close>

record init_args =
  arg_n_tokens :: nat
  arg_c_token :: "nat arg"
  arg_c_atom :: "nat arg"
  arg_c_atompair :: "nat arg"
  arg_c_trunk_pair :: "nat arg"
  arg_num_blocks :: "nat arg"
  arg_num_heads :: "nat arg"
  arg_dropout :: "real arg"
  arg_n_queries :: "nat arg"
  arg_n_keys :: "nat arg"
  arg_device :: "string option arg"
  arg_dtype :: "string option arg"

record config =
  n_tokens :: nat
  num_blocks :: nat
  c_token :: nat
  c_atom :: nat
  c_atompair :: nat
  c_trunk_pair :: nat
  num_heads :: nat
  dropout :: real
  n_queries :: nat
  n_keys :: nat
  device :: "string option"
  dtype :: "string option"

record encoder_args = config +
  trunk_conditioning :: bool

section \<open>InputFeatureEmbedder\<close>

record InputFeatureEmbedder = config +
  encoder :: AtomAttentionEncoder

definition InputFeatureEmbedder_init ::
  "(encoder_args \<Rightarrow> AtomAttentionEncoder) \<Rightarrow> init_args \<Rightarrow> InputFeatureEmbedder" where
  "InputFeatureEmbedder_init new_AtomAttentionEncoder args =
     (let n_tokens' = arg_n_tokens args;
          num_blocks' = arg_or 3 (arg_num_blocks args);
          c_token' = arg_or 384 (arg_c_token args);
          c_atom' = arg_or 128 (arg_c_atom args);
          c_atompair' = arg_or 16 (arg_c_atompair args);
          c_trunk_pair' = arg_or 16 (arg_c_trunk_pair args);
          num_heads' = arg_or 4 (arg_num_heads args);
          dropout' = arg_or 0 (arg_dropout args);
          n_queries' = arg_or 32 (arg_n_queries args);
          n_keys' = arg_or 128 (arg_n_keys args);
          device' = arg_or None (arg_device args);
          dtype' = arg_or None (arg_dtype args)
      in \<lparr>n_tokens = n_tokens', num_blocks = num_blocks', c_token = c_token',
          c_atom = c_atom', c_atompair = c_atompair', c_trunk_pair = c_trunk_pair',
          num_heads = num_heads', dropout = dropout', n_queries = n_queries',
          n_keys = n_keys', device = device', dtype = dtype',
          encoder = new_AtomAttentionEncoder
            \<lparr>n_tokens = n_tokens', num_blocks = num_blocks', c_token = c_token',
             c_atom = c_atom', c_atompair = c_atompair', c_trunk_pair = c_trunk_pair',
             num_heads = num_heads', dropout = dropout', n_queries = n_queries',
             n_keys = n_keys', device = device', dtype = dtype',
             trunk_conditioning = False\<rparr>\<rparr>)"

definition InputFeatureEmbedder_forward ::
  "InputFeatureEmbedder \<Rightarrow> features \<Rightarrow> tensor option arg \<Rightarrow> error + tensor" where
  "InputFeatureEmbedder_forward self features mask_arg =
     (let mask = arg_or None mask_arg in
      bind_err (encoder self features mask) (\<lambda>output.
      let per_token_features = token_single output in
      Inr per_token_features))"

section \<open>ProteusFeatureEmbedder\<close>

record ProteusFeatures =
  s_inputs :: tensor
  s_trunk :: tensor
  z_trunk :: tensor

record ProteusFeatureEmbedder = config +
  input_feature_embedder :: InputFeatureEmbedder
  linear_s_init :: Linear
  linear_z_col :: Linear
  linear_z_row :: Linear
  relative_pos_encoder :: RelativePositionEncoding

text \<open>
  Besides the two absent constructors, the constructor takes the entries that the three
  weight matrices start with.
\<close>

definition ProteusFeatureEmbedder_init ::
  "(encoder_args \<Rightarrow> AtomAttentionEncoder) \<Rightarrow> (nat \<Rightarrow> RelativePositionEncoding) \<Rightarrow>
   (nat \<Rightarrow> nat \<Rightarrow> real) \<Rightarrow> (nat \<Rightarrow> nat \<Rightarrow> real) \<Rightarrow> (nat \<Rightarrow> nat \<Rightarrow> real) \<Rightarrow>
   init_args \<Rightarrow> ProteusFeatureEmbedder" where
  "ProteusFeatureEmbedder_init new_AtomAttentionEncoder new_RelativePositionEncoding
       w_s w_col w_row args =
     (let n_tokens' = arg_n_tokens args;
          num_blocks' = arg_or 3 (arg_num_blocks args);
          c_token' = arg_or 384 (arg_c_token args);
          c_atom' = arg_or 128 (arg_c_atom args);
          c_atompair' = arg_or 16 (arg_c_atompair args);
          c_trunk_pair' = arg_or 16 (arg_c_trunk_pair args);
          num_heads' = arg_or 4 (arg_num_heads args);
          dropout' = arg_or 0 (arg_dropout args);
          n_queries' = arg_or 32 (arg_n_queries args);
          n_keys' = arg_or 128 (arg_n_keys args);
          device' = arg_or None (arg_device args);
          dtype' = arg_or None (arg_dtype args)
      in \<lparr>n_tokens = n_tokens', num_blocks = num_blocks', c_token = c_token',
          c_atom = c_atom', c_atompair = c_atompair', c_trunk_pair = c_trunk_pair',
          num_heads = num_heads', dropout = dropout', n_queries = n_queries',
          n_keys = n_keys', device = device', dtype = dtype',
          input_feature_embedder = InputFeatureEmbedder_init new_AtomAttentionEncoder
            \<lparr>arg_n_tokens = n_tokens', arg_c_token = Given c_token',
             arg_c_atom = Given c_atom', arg_c_atompair = Given c_atompair',
             arg_c_trunk_pair = Given c_trunk_pair', arg_num_blocks = Given num_blocks',
             arg_num_heads = Given num_heads', arg_dropout = Given dropout',
             arg_n_queries = Given n_queries', arg_n_keys = Given n_keys',
             arg_device = Given device', arg_dtype = Given dtype'\<rparr>,
          linear_s_init = Linear_init c_token' c_token' False w_s (\<lambda>_. 0),
          linear_z_col = Linear_init c_token' c_trunk_pair' False w_col (\<lambda>_. 0),
          linear_z_row = Linear_init c_token' c_trunk_pair' False w_row (\<lambda>_. 0),
          relative_pos_encoder = new_RelativePositionEncoding c_trunk_pair'\<rparr>)"

definition ProteusFeatureEmbedder_forward ::
  "ProteusFeatureEmbedder \<Rightarrow> features \<Rightarrow> tensor option arg \<Rightarrow> tensor option arg \<Rightarrow>
   error + ProteusFeatures" where
  "ProteusFeatureEmbedder_forward self features atom_mask_arg token_mask_arg =
     (let atom_mask = arg_or None atom_mask_arg;
          token_mask = arg_or None token_mask_arg in
      bind_err (InputFeatureEmbedder_forward (input_feature_embedder self) features
                  (Given atom_mask)) (\<lambda>per_token_features.
      bind_err (Linear_forward (linear_s_init self) per_token_features) (\<lambda>s_trunk'.
      bind_err (getitem [Slice_all, Slice_all, NewAxis, Slice_all] per_token_features) (\<lambda>x_col.
      bind_err (Linear_forward (linear_z_col self) x_col) (\<lambda>z_col.
      bind_err (getitem [Slice_all, NewAxis, Slice_all, Slice_all] per_token_features) (\<lambda>x_row.
      bind_err (Linear_forward (linear_z_row self) x_row) (\<lambda>z_row.
      bind_err (tensor_add z_col z_row) (\<lambda>z_trunk'.
      bind_err (relative_pos_encoder self features token_mask) (\<lambda>rel_pos.
      bind_err (tensor_add z_trunk' rel_pos) (\<lambda>z_trunk''.
      Inr \<lparr>s_inputs = per_token_features, s_trunk = s_trunk', z_trunk = z_trunk''\<rparr>))))))))))"

section \<open>A small embedder for concrete checks\<close>

text \<open>
  An encoder that returns the tokens \<open>1, 2, \<dots>\<close> in every channel, a relative position
  encoder that reads the token count from the \<open>residue_index\<close> feature and returns the
  difference of the residue indices, and an embedder built from them with one token
  channel, one pair channel and two tokens.
\<close>

definition ex_encoder :: "encoder_args \<Rightarrow> AtomAttentionEncoder" where
  "ex_encoder cfg features m =
     Inr \<lparr>token_single = tabulate [1, n_tokens cfg, c_token cfg] (\<lambda>idx. real (idx ! 1) + 1)\<rparr>"

definition ex_rpe :: "nat \<Rightarrow> RelativePositionEncoding" where
  "ex_rpe c features m =
     (case features ''residue_index'' of
        None \<Rightarrow> Inl (Raised ''KeyError'')
      | Some t \<Rightarrow> Inr (tabulate [shape t ! 0, shape t ! 1, shape t ! 1, c]
                 (\<lambda>idx. elem t [idx ! 0, idx ! 1] - elem t [idx ! 0, idx ! 2])))"

definition ex_args :: init_args where
  "ex_args = \<lparr>arg_n_tokens = 2, arg_c_token = Given 1, arg_c_atom = Omitted,
     arg_c_atompair = Omitted, arg_c_trunk_pair = Given 1, arg_num_blocks = Omitted,
     arg_num_heads = Omitted, arg_dropout = Omitted, arg_n_queries = Omitted,
     arg_n_keys = Omitted, arg_device = Omitted, arg_dtype = Omitted\<rparr>"

definition ex_embedder :: ProteusFeatureEmbedder where
  "ex_embedder = ProteusFeatureEmbedder_init ex_encoder ex_rpe
     (\<lambda>c k. 1) (\<lambda>c k. 10) (\<lambda>c k. 1) ex_args"

definition ex_features :: "nat \<Rightarrow> features" where
  "ex_features n = [''residue_index'' \<mapsto> tabulate [1, n] (\<lambda>idx. real (idx ! 1))]"

definition ex_out :: AtomAttentionEncoderOutput where
  "ex_out = \<lparr>token_single = \<lparr>shape = [1, 2, 1], data = [1, 2]\<rparr>\<rparr>"

definition ex_rel :: tensor where
  "ex_rel = \<lparr>shape = [1, 2, 2, 1], data = [0, -1, 1, 0]\<rparr>"

definition ex_result :: ProteusFeatures where
  "ex_result = \<lparr>s_inputs = \<lparr>shape = [1, 2, 1], data = [1, 2]\<rparr>,
                 s_trunk = \<lparr>shape = [1, 2, 1], data = [1, 2]\<rparr>,
                 z_trunk = \<lparr>shape = [1, 2, 2, 1], data = [11, 11, 22, 22]\<rparr>\<rparr>"

definition ex_rel_three :: tensor where
  "ex_rel_three = \<lparr>shape = [1, 3, 3, 1], data = [0, -1, -2, 1, 0, -1, 2, 1, 0]\<rparr>"

definition ex_rel_one :: tensor where
  "ex_rel_one = \<lparr>shape = [1, 1, 1, 1], data = [0]\<rparr>"

definition ex_result_one :: ProteusFeatures where
  "ex_result_one = \<lparr>s_inputs = \<lparr>shape = [1, 2, 1], data = [1, 2]\<rparr>,
                     s_trunk = \<lparr>shape = [1, 2, 1], data = [1, 2]\<rparr>,
                     z_trunk = \<lparr>shape = [1, 2, 2, 1], data = [11, 12, 21, 22]\<rparr>\<rparr>"

text \<open>
  A second embedder with two token channels, three pair channels and weights that differ
  in every entry.  Its encoder and its relative position encoder tell a mask from \<open>None\<close>:
  given a mask they return the mask itself.
\<close>

definition ex2_encoder :: "encoder_args \<Rightarrow> AtomAttentionEncoder" where
  "ex2_encoder cfg features m =
     (case m of
        None \<Rightarrow> Inr \<lparr>token_single = tabulate [1, n_tokens cfg, c_token cfg]
                  (\<lambda>idx. real (2 * (idx ! 1) + (idx ! 2) + 1))\<rparr>
      | Some t \<Rightarrow> Inr \<lparr>token_single = t\<rparr>)"

definition ex2_rpe :: "nat \<Rightarrow> RelativePositionEncoding" where
  "ex2_rpe c features m =
     (case m of
        Some t \<Rightarrow> Inr t
      | None \<Rightarrow>
          (case features ''residue_index'' of
             None \<Rightarrow> Inl (Raised ''KeyError'')
           | Some t \<Rightarrow> Inr (tabulate [shape t ! 0, shape t ! 1, shape t ! 1, c]
               (\<lambda>idx. (elem t [idx ! 0, idx ! 1] - elem t [idx ! 0, idx ! 2]) * real (idx ! 3 + 1)))))"

definition ex2_args :: init_args where
  "ex2_args = \<lparr>arg_n_tokens = 2, arg_c_token = Given 2, arg_c_atom = Omitted,
     arg_c_atompair = Omitted, arg_c_trunk_pair = Given 3, arg_num_blocks = Omitted,
     arg_num_heads = Omitted, arg_dropout = Omitted, arg_n_queries = Omitted,
     arg_n_keys = Omitted, arg_device = Omitted, arg_dtype = Omitted\<rparr>"

definition ex2_w_s :: "nat \<Rightarrow> nat \<Rightarrow> real" where
  "ex2_w_s c k = real (c + 2 * k + 1)"

definition ex2_w_col :: "nat \<Rightarrow> nat \<Rightarrow> real" where
  "ex2_w_col c k = real (10 * (c + 1) + k)"

definition ex2_w_row :: "nat \<Rightarrow> nat \<Rightarrow> real" where
  "ex2_w_row c k = real (c + 3 * k + 1)"

definition ex2_embedder :: ProteusFeatureEmbedder where
  "ex2_embedder = ProteusFeatureEmbedder_init ex2_encoder ex2_rpe ex2_w_s ex2_w_col ex2_w_row ex2_args"

definition ex_same_residue :: features where
  "ex_same_residue = [''residue_index'' \<mapsto> \<lparr>shape = [1, 2], data = [7, 7]\<rparr>]"

definition ex2_out :: AtomAttentionEncoderOutput where
  "ex2_out = \<lparr>token_single = \<lparr>shape = [1, 2, 2], data = [1, 2, 3, 4]\<rparr>\<rparr>"

definition ex2_rel :: tensor where
  "ex2_rel = \<lparr>shape = [1, 2, 2, 3], data = [0, 0, 0, -1, -2, -3, 1, 2, 3, 0, 0, 0]\<rparr>"

definition ex2_rel_zero :: tensor where
  "ex2_rel_zero = \<lparr>shape = [1, 2, 2, 3], data = [0, 0, 0, 0, 0, 0, 0, 0, 0, 0, 0, 0]\<rparr>"

definition ex2_result :: ProteusFeatures where
  "ex2_result = \<lparr>s_inputs = \<lparr>shape = [1, 2, 2], data = [1, 2, 3, 4]\<rparr>,
                  s_trunk = \<lparr>shape = [1, 2, 2], data = [7, 10, 15, 22]\<rparr>,
                  z_trunk = \<lparr>shape = [1, 2, 2, 3],
                    data = [41, 74, 107, 50, 86, 122, 84, 158, 232, 93, 170, 247]\<rparr>\<rparr>"

definition ex2_result_zero :: ProteusFeatures where
  "ex2_result_zero = \<lparr>s_inputs = \<lparr>shape = [1, 2, 2], data = [1, 2, 3, 4]\<rparr>,
                  s_trunk = \<lparr>shape = [1, 2, 2], data = [7, 10, 15, 22]\<rparr>,
                  z_trunk = \<lparr>shape = [1, 2, 2, 3],
                    data = [41, 74, 107, 51, 88, 125, 83, 156, 229, 93, 170, 247]\<rparr>\<rparr>"

section \<open>Lemmas about tensors and the forward pass\<close>

lemma length_indices: "length (indices s) = prod_list s"
  by (induction s) (simp_all add: length_product)

lemma offset_indices:
  "list_all2 (<) idx s \<Longrightarrow> offset s idx < prod_list s \<and> indices s ! offset s idx = idx"
proof (induction s arbitrary: idx)
  case Nil
  then show ?case by simp
next
  case (Cons n ns)
  then obtain i js where idx: "idx = i # js" and i: "i < n" and js: "list_all2 (<) js ns"
    by (auto simp: list_all2_Cons2)
  let ?m = "prod_list ns"
  from Cons.IH[OF js] have o: "offset ns js < ?m" and ix: "indices ns ! offset ns js = js"
    by simp_all
  have lt: "i * ?m + offset ns js < n * ?m"
  proof -
    have "i * ?m + offset ns js < (i + 1) * ?m" using o by simp
    also have "\<dots> \<le> n * ?m" using i by (intro mult_le_mono1) simp
    finally show ?thesis .
  qed
  have d: "(i * ?m + offset ns js) div ?m = i" using o by simp
  have m: "(i * ?m + offset ns js) mod ?m = offset ns js" using o by simp
  show ?case using lt d m ix i
    by (simp add: idx length_indices product_nth)
qed

lemma shape_tabulate [simp]: "shape (tabulate s f) = s"
  by (simp add: tabulate_def)

lemma elem_tabulate: "in_range s idx \<Longrightarrow> elem (tabulate s f) idx = f idx"
  using offset_indices[of idx s]
  by (simp add: elem_def tabulate_def in_range_def length_indices)

lemma in_range_1 [simp]: "in_range [a] [i] \<longleftrightarrow> i < a"
  by (simp add: in_range_def)

lemma in_range_2 [simp]: "in_range [a, b] [i, j] \<longleftrightarrow> i < a \<and> j < b"
  by (simp add: in_range_def)

lemma in_range_3 [simp]: "in_range [a, b, c] [i, j, k] \<longleftrightarrow> i < a \<and> j < b \<and> k < c"
  by (simp add: in_range_def)

lemma in_range_4 [simp]:
  "in_range [a, b, c, d] [i, j, k, l] \<longleftrightarrow> i < a \<and> j < b \<and> k < c \<and> l < d"
  by (simp add: in_range_def)

lemma in_range_4D:
  "in_range [a, b, c, d] idx \<Longrightarrow>
   \<exists>i j k l. idx = [i, j, k, l] \<and> i < a \<and> j < b \<and> k < c \<and> l < d"
  by (auto simp: in_range_def list_all2_Cons2)

lemma bind_err_Inr [simp]: "bind_err (Inr x) f = f x"
  by (simp add: bind_err_def)

lemma bind_err_Inl [simp]: "bind_err (Inl e) f = Inl e"
  by (simp add: bind_err_def)


lemma affine_cong:
  "bias L = bias L' \<Longrightarrow> in_features L = in_features L' \<Longrightarrow>
   (\<And>k. k < in_features L \<Longrightarrow>
      elem (weight L) [c, k] * elem x (pre @ [k]) = elem (weight L') [c', k] * elem y (pre' @ [k]))
   \<Longrightarrow> (case bias L of None \<Rightarrow> True | Some b \<Rightarrow> elem b [c] = elem b [c'])
   \<Longrightarrow> affine L x pre c = affine L' y pre' c'"
  unfolding affine_def
  by (auto intro!: arg_cong[where f=sum_list] split: option.splits)

lemma getitem_col:
  "shape s = [B, N, C] \<Longrightarrow>
   getitem [Slice_all, Slice_all, NewAxis, Slice_all] s =
     Inr (tabulate [B, N, 1, C] (\<lambda>idx. elem s (getitem_index [Slice_all, Slice_all, NewAxis, Slice_all] idx)))"
  by (simp add: getitem_def)

lemma getitem_row:
  "shape s = [B, N, C] \<Longrightarrow>
   getitem [Slice_all, NewAxis, Slice_all, Slice_all] s =
     Inr (tabulate [B, 1, N, C] (\<lambda>idx. elem s (getitem_index [Slice_all, NewAxis, Slice_all, Slice_all] idx)))"
  by (simp add: getitem_def)

lemma broadcast_outer: "broadcast_shapes [B, N, 1, C] [B, 1, N, C] = Some [B, N, N, C]"
  by (simp add: broadcast_shapes_def)

lemma map2_clamp_same:
  "list_all2 (<) idx s \<Longrightarrow> map2 (\<lambda>d i. if d = 1 then 0 else i) s idx = (idx::nat list)"
  by (induction idx s rule: list_all2_induct) auto

lemma broadcast_index_same:
  "in_range s idx \<Longrightarrow> broadcast_index s idx = idx"
  using map2_clamp_same[of idx s]
  by (simp add: broadcast_index_def in_range_def list_all2_lengthD)

lemma broadcast_index_col:
  "b < B \<Longrightarrow> i < N \<Longrightarrow> c < C \<Longrightarrow> broadcast_index [B, N, 1, C] [b, i, j, c] = [b, i, 0, c]"
  by (auto simp: broadcast_index_def)

lemma broadcast_index_row:
  "b < B \<Longrightarrow> j < N \<Longrightarrow> c < C \<Longrightarrow> broadcast_index [B, 1, N, C] [b, i, j, c] = [b, 0, j, c]"
  by (auto simp: broadcast_index_def)

lemma Linear_forward_ok:
  "shape x = pre @ [in_features L] \<Longrightarrow>
   Linear_forward L x =
     Inr (tabulate (pre @ [out_features L]) (\<lambda>idx. affine L x (butlast idx) (last idx)))"
  by (simp add: Linear_forward_def)

lemma arg_or_simps [simp]: "arg_or d Omitted = d" "arg_or d (Given x) = x"
  by (simp_all add: arg_or_def)

lemma set_indices: "idx \<in> set (indices s) \<Longrightarrow> in_range s idx"
  unfolding in_range_def
  by (induction s arbitrary: idx) (auto simp: list_all2_Cons2)

lemma tabulate_cong:
  "(\<And>idx. in_range s idx \<Longrightarrow> f idx = g idx) \<Longrightarrow> tabulate s f = tabulate s g"
  by (simp add: tabulate_def set_indices)

lemma broadcast_rev_same: "broadcast_rev s s = Some s"
  by (induction s) simp_all

lemma broadcast_shapes_same: "broadcast_shapes s s = Some s"
  by (simp add: broadcast_shapes_def broadcast_rev_same)

lemma affine_getitem_col:
  assumes "shape s = [B, N, C]" "in_features L = C" "b < B" "i < N"
  shows "affine L (tabulate [B, N, 1, C]
            (\<lambda>idx. elem s (getitem_index [Slice_all, Slice_all, NewAxis, Slice_all] idx)))
          [b, i, 0] c = affine L s [b, i] c"
  using assms by (intro affine_cong) (simp_all add: elem_tabulate split: option.splits)

lemma affine_getitem_row:
  assumes "shape s = [B, N, C]" "in_features L = C" "b < B" "j < N"
  shows "affine L (tabulate [B, 1, N, C]
            (\<lambda>idx. elem s (getitem_index [Slice_all, NewAxis, Slice_all, Slice_all] idx)))
          [b, 0, j] c = affine L s [b, j] c"
  using assms by (intro affine_cong) (simp_all add: elem_tabulate split: option.splits)

lemma outer_sum_ok:
  assumes sh: "shape s = [B, N, C]"
    and ic: "in_features Lc = C" and ir: "in_features Lr = C"
    and oc: "out_features Lc = Cz" and orw: "out_features Lr = Cz"
  shows "bind_err (getitem [Slice_all, Slice_all, NewAxis, Slice_all] s) (\<lambda>x_col.
         bind_err (Linear_forward Lc x_col) (\<lambda>z_col.
         bind_err (getitem [Slice_all, NewAxis, Slice_all, Slice_all] s) (\<lambda>x_row.
         bind_err (Linear_forward Lr x_row) (\<lambda>z_row.
         bind_err (tensor_add z_col z_row) K)))) =
         K (tabulate [B, N, N, Cz] (\<lambda>idx.
              affine Lc s [idx ! 0, idx ! 1] (idx ! 3) + affine Lr s [idx ! 0, idx ! 2] (idx ! 3)))"
proof -
  let ?xc = "tabulate [B, N, 1, C]
      (\<lambda>idx. elem s (getitem_index [Slice_all, Slice_all, NewAxis, Slice_all] idx))"
  let ?xr = "tabulate [B, 1, N, C]
      (\<lambda>idx. elem s (getitem_index [Slice_all, NewAxis, Slice_all, Slice_all] idx))"
  let ?zc = "tabulate [B, N, 1, Cz] (\<lambda>idx. affine Lc ?xc (butlast idx) (last idx))"
  let ?zr = "tabulate [B, 1, N, Cz] (\<lambda>idx. affine Lr ?xr (butlast idx) (last idx))"
  have lc: "Linear_forward Lc ?xc = Inr ?zc"
    using Linear_forward_ok[of ?xc "[B, N, 1]" Lc] by (simp add: ic oc)
  have lr: "Linear_forward Lr ?xr = Inr ?zr"
    using Linear_forward_ok[of ?xr "[B, 1, N]" Lr] by (simp add: ir orw)
  have add: "tensor_add ?zc ?zr = Inr (tabulate [B, N, N, Cz] (\<lambda>idx.
      affine Lc s [idx ! 0, idx ! 1] (idx ! 3) + affine Lr s [idx ! 0, idx ! 2] (idx ! 3)))"
  proof -
    have "tabulate [B, N, N, Cz] (\<lambda>idx.
            elem ?zc (broadcast_index [B, N, 1, Cz] idx) + elem ?zr (broadcast_index [B, 1, N, Cz] idx))
          = tabulate [B, N, N, Cz] (\<lambda>idx.
            affine Lc s [idx ! 0, idx ! 1] (idx ! 3) + affine Lr s [idx ! 0, idx ! 2] (idx ! 3))"
    proof (rule tabulate_cong)
      fix idx assume "in_range [B, N, N, Cz] idx"
      then obtain b i j c where idx: "idx = [b, i, j, c]" and r: "b < B" "i < N" "j < N" "c < Cz"
        using in_range_4D by blast
      have c1: "elem ?zc [b, i, 0, c] = affine Lc ?xc [b, i, 0] c"
        using r by (simp add: elem_tabulate)
      have c2: "elem ?zr [b, 0, j, c] = affine Lr ?xr [b, 0, j] c"
        using r by (simp add: elem_tabulate)
      have "elem ?zc (broadcast_index [B, N, 1, Cz] idx) + elem ?zr (broadcast_index [B, 1, N, Cz] idx)
          = affine Lc s [b, i] c + affine Lr s [b, j] c"
        unfolding idx broadcast_index_col[OF r(1,2,4)] broadcast_index_row[OF r(1,3,4)] c1 c2
          affine_getitem_col[OF sh ic r(1,2)] affine_getitem_row[OF sh ir r(1,3)] ..
      then show "elem ?zc (broadcast_index [B, N, 1, Cz] idx) + elem ?zr (broadcast_index [B, 1, N, Cz] idx)
          = affine Lc s [idx ! 0, idx ! 1] (idx ! 3) + affine Lr s [idx ! 0, idx ! 2] (idx ! 3)"
        by (simp add: idx)
    qed
    then show ?thesis
      unfolding tensor_add_def shape_tabulate broadcast_outer by simp
  qed
  show ?thesis
    unfolding getitem_col[OF sh] getitem_row[OF sh] bind_err_Inr lc lr add by (rule refl)
qed

lemma forward_rank3:
  assumes enc: "encoder (input_feature_embedder P) features (arg_or None am) = Inr out"
    and sh: "shape (token_single out) = [B, N, C]"
    and isn: "in_features (linear_s_init P) = C"
    and ic: "in_features (linear_z_col P) = C" and ir: "in_features (linear_z_row P) = C"
    and oc: "out_features (linear_z_col P) = Cz" and orw: "out_features (linear_z_row P) = Cz"
    and rpe: "relative_pos_encoder P features (arg_or None tm) = Inr rel"
  shows "ProteusFeatureEmbedder_forward P features am tm =
     bind_err (tensor_add (tabulate [B, N, N, Cz] (\<lambda>idx.
         affine (linear_z_col P) (token_single out) [idx ! 0, idx ! 1] (idx ! 3) +
         affine (linear_z_row P) (token_single out) [idx ! 0, idx ! 2] (idx ! 3))) rel)
       (\<lambda>z. Inr \<lparr>s_inputs = token_single out,
                 s_trunk = tabulate [B, N, out_features (linear_s_init P)]
                   (\<lambda>idx. affine (linear_s_init P) (token_single out) (butlast idx) (last idx)),
                 z_trunk = z\<rparr>)"
proof -
  have ls: "Linear_forward (linear_s_init P) (token_single out) =
      Inr (tabulate [B, N, out_features (linear_s_init P)]
            (\<lambda>idx. affine (linear_s_init P) (token_single out) (butlast idx) (last idx)))"
    using Linear_forward_ok[of "token_single out" "[B, N]" "linear_s_init P"] sh isn by simp
  show ?thesis
    unfolding ProteusFeatureEmbedder_forward_def InputFeatureEmbedder_forward_def Let_def
    by (simp add: enc ls outer_sum_ok[OF sh ic ir oc orw] rpe)
qed

lemma Linear_init_simps [simp]:
  "in_features (Linear_init a b u w v) = a"
  "out_features (Linear_init a b u w v) = b"
  "weight (Linear_init a b u w v) = tabulate [b, a] (\<lambda>idx. w (idx ! 0) (idx ! 1))"
  "bias (Linear_init a b False w v) = None"
  by (simp_all add: Linear_init_def)

lemma Proteus_init_fields:
  assumes "P = ProteusFeatureEmbedder_init ENC RPE w_s w_col w_row args"
  shows "c_token P = arg_or 384 (arg_c_token args)"
    and "c_trunk_pair P = arg_or 16 (arg_c_trunk_pair args)"
    and "n_tokens P = arg_n_tokens args"
    and "linear_s_init P = Linear_init (c_token P) (c_token P) False w_s (\<lambda>_. 0)"
    and "linear_z_col P = Linear_init (c_token P) (c_trunk_pair P) False w_col (\<lambda>_. 0)"
    and "linear_z_row P = Linear_init (c_token P) (c_trunk_pair P) False w_row (\<lambda>_. 0)"
    and "relative_pos_encoder P = RPE (c_trunk_pair P)"
  by (simp_all add: assms ProteusFeatureEmbedder_init_def Let_def)


lemma affine_unbiased:
  assumes "c < m"
  shows "affine (Linear_init n m False w v) x pre c =
         sum_list (map (\<lambda>k. w c k * elem x (pre @ [k])) [0..<n])"
proof -
  have eq: "map (\<lambda>k. elem (tabulate [m, n] (\<lambda>idx. w (idx ! 0) (idx ! 1))) [c, k] * elem x (pre @ [k])) [0..<n]
      = map (\<lambda>k. w c k * elem x (pre @ [k])) [0..<n]"
    using assms by (intro map_cong refl) (simp add: elem_tabulate)
  show ?thesis
    unfolding affine_def Linear_init_simps eq by simp
qed


lemma broadcast4_mismatch:
  "(N1 \<noteq> N \<and> N1 \<noteq> 1 \<and> N \<noteq> 1) \<or> (N2 \<noteq> N \<and> N2 \<noteq> 1 \<and> N \<noteq> 1) \<or> (C' \<noteq> C \<and> C' \<noteq> 1 \<and> C \<noteq> 1)
   \<Longrightarrow> broadcast_shapes [B, N, N, C] [B', N1, N2, C'] = None"
  by (auto simp: broadcast_shapes_def)





lemma forward_full:
  assumes P: "P = ProteusFeatureEmbedder_init ENC RPE w_s w_col w_row args"
    and enc: "encoder (input_feature_embedder P) features (arg_or None am) = Inr out"
    and sh: "shape (token_single out) = [B, N, c_token P]"
    and rpe: "relative_pos_encoder P features (arg_or None tm) = Inr rel"
    and shr: "shape rel = [B, N, N, c_trunk_pair P]"
  shows "ProteusFeatureEmbedder_forward P features am tm =
     Inr \<lparr>s_inputs = token_single out,
          s_trunk = tabulate [B, N, c_token P]
            (\<lambda>idx. affine (linear_s_init P) (token_single out) (butlast idx) (last idx)),
          z_trunk = tabulate [B, N, N, c_trunk_pair P] (\<lambda>idx.
            affine (linear_z_col P) (token_single out) [idx ! 0, idx ! 1] (idx ! 3) +
            affine (linear_z_row P) (token_single out) [idx ! 0, idx ! 2] (idx ! 3) +
            elem rel idx)\<rparr>"
proof -
  note f = Proteus_init_fields[OF P]
  let ?s = "[B, N, N, c_trunk_pair P]"
  let ?Zf = "\<lambda>idx. affine (linear_z_col P) (token_single out) [idx ! 0, idx ! 1] (idx ! 3) +
         affine (linear_z_row P) (token_single out) [idx ! 0, idx ! 2] (idx ! 3)"
  let ?Z = "tabulate ?s ?Zf"
  have fw: "ProteusFeatureEmbedder_forward P features am tm =
     bind_err (tensor_add ?Z rel)
       (\<lambda>z. Inr \<lparr>s_inputs = token_single out,
                 s_trunk = tabulate [B, N, out_features (linear_s_init P)]
                   (\<lambda>idx. affine (linear_s_init P) (token_single out) (butlast idx) (last idx)),
                 z_trunk = z\<rparr>)"
    by (rule forward_rank3[OF enc sh _ _ _ _ _ rpe]) (simp_all add: f(4-6))
  have "tabulate ?s (\<lambda>idx. elem ?Z (broadcast_index ?s idx) + elem rel (broadcast_index ?s idx))
      = tabulate ?s (\<lambda>idx. ?Zf idx + elem rel idx)"
  proof (rule tabulate_cong)
    fix idx assume r: "in_range ?s idx"
    show "elem ?Z (broadcast_index ?s idx) + elem rel (broadcast_index ?s idx) = ?Zf idx + elem rel idx"
      unfolding broadcast_index_same[OF r] elem_tabulate[OF r] ..
  qed
  then have add: "tensor_add ?Z rel = Inr (tabulate ?s (\<lambda>idx. ?Zf idx + elem rel idx))"
    unfolding tensor_add_def shape_tabulate shr broadcast_shapes_same by simp
  show ?thesis
    unfolding fw add bind_err_Inr by (simp add: f(4))
qed

section \<open>The claims\<close>

text \<open>
  C1.  For an embedder as its constructor builds it, an encoder output \<open>out\<close> of shape
  \<open>[B, N, c_token]\<close> and a relative position bias of shape \<open>[B, N, N, c_trunk_pair]\<close>, the
  forward pass returns a result whose \<open>s_inputs\<close> is the encoder's \<open>token_single\<close> and whose
  \<open>z_trunk\<close> has shape \<open>[B, N, N, c_trunk_pair]\<close>, and every entry of the pair trunk is the
  sum of a projection of the first token of the pair, a projection of the second token and
  the bias of the pair:
  \<open>z_trunk[b, i, j] = linear_z_col(token_i) + linear_z_row(token_j) + bias[b, i, j]\<close>.
  The two layers are the embedder's two pair projections; neither has a bias term, so each
  is the weighted sum of the token's channels.  The term that varies with the row index
  \<open>i\<close> of the pair comes from the layer the code names \<open>linear_z_col\<close>, the term that varies
  with the column index \<open>j\<close> from \<open>linear_z_row\<close>.  Where the relative position bias is zero
  the entry is the sum of the two projections alone.
\<close>

theorem C1_pair_trunk_entry:
  assumes P: "P = ProteusFeatureEmbedder_init ENC RPE w_s w_col w_row args"
    and enc: "encoder (input_feature_embedder P) features (arg_or None atom_mask) = Inr out"
    and sh: "shape (token_single out) = [B, N, c_token P]"
    and rpe: "relative_pos_encoder P features (arg_or None token_mask) = Inr rel"
    and shr: "shape rel = [B, N, N, c_trunk_pair P]"
    and r: "b < B" "i < N" "j < N" "c < c_trunk_pair P"
  shows "\<exists>r. ProteusFeatureEmbedder_forward P features atom_mask token_mask = Inr r \<and>
           s_inputs r = token_single out \<and>
           shape (z_trunk r) = [B, N, N, c_trunk_pair P] \<and>
           bias (linear_z_col P) = None \<and> bias (linear_z_row P) = None \<and>
           affine (linear_z_col P) (token_single out) [b, i] c =
             sum_list (map (\<lambda>k. w_col c k * elem (token_single out) [b, i, k]) [0..<c_token P]) \<and>
           affine (linear_z_row P) (token_single out) [b, j] c =
             sum_list (map (\<lambda>k. w_row c k * elem (token_single out) [b, j, k]) [0..<c_token P]) \<and>
           elem (z_trunk r) [b, i, j, c] =
             affine (linear_z_col P) (token_single out) [b, i] c +
             affine (linear_z_row P) (token_single out) [b, j] c + elem rel [b, i, j, c] \<and>
           (elem rel [b, i, j, c] = 0 \<longrightarrow>
              elem (z_trunk r) [b, i, j, c] =
                affine (linear_z_col P) (token_single out) [b, i] c +
                affine (linear_z_row P) (token_single out) [b, j] c)"
proof -
  note f = Proteus_init_fields[OF P]
  let ?r = "\<lparr>s_inputs = token_single out,
          s_trunk = tabulate [B, N, c_token P]
            (\<lambda>idx. affine (linear_s_init P) (token_single out) (butlast idx) (last idx)),
          z_trunk = tabulate [B, N, N, c_trunk_pair P] (\<lambda>idx.
            affine (linear_z_col P) (token_single out) [idx ! 0, idx ! 1] (idx ! 3) +
            affine (linear_z_row P) (token_single out) [idx ! 0, idx ! 2] (idx ! 3) +
            elem rel idx)\<rparr>"
  have fw: "ProteusFeatureEmbedder_forward P features atom_mask token_mask = Inr ?r"
    by (rule forward_full[OF P enc sh rpe shr])
  have ir: "in_range [B, N, N, c_trunk_pair P] [b, i, j, c]"
    using r by simp
  have e: "elem (z_trunk ?r) [b, i, j, c] =
      affine (linear_z_col P) (token_single out) [b, i] c +
      affine (linear_z_row P) (token_single out) [b, j] c + elem rel [b, i, j, c]"
    by (simp add: elem_tabulate[OF ir])
  have nb: "bias (linear_z_col P) = None" "bias (linear_z_row P) = None"
    by (simp_all add: f(5,6))
  have ac: "affine (linear_z_col P) (token_single out) [b, i] c =
      sum_list (map (\<lambda>k. w_col c k * elem (token_single out) [b, i, k]) [0..<c_token P])"
    unfolding f(5) using affine_unbiased[OF r(4), of "c_token P" w_col _ "token_single out" "[b, i]"]
    by simp
  have ar: "affine (linear_z_row P) (token_single out) [b, j] c =
      sum_list (map (\<lambda>k. w_row c k * elem (token_single out) [b, j, k]) [0..<c_token P])"
    unfolding f(6) using affine_unbiased[OF r(4), of "c_token P" w_row _ "token_single out" "[b, j]"]
    by simp
  have "s_inputs ?r = token_single out" "shape (z_trunk ?r) = [B, N, N, c_trunk_pair P]"
    by simp_all
  with fw e nb ac ar show ?thesis
    by (intro exI[of _ ?r]) simp
qed

text \<open>
  On the second embedder, at the pair \<open>(0, 1)\<close> and channel 2: the projections are 92 and
  33; with residue indices 0 and 1 the bias is \<open>-3\<close> and the entry is 122, with equal
  residue indices the bias is zero and the entry is 125.
\<close>

theorem C1_pair_trunk_entry_witness:
  "ex2_embedder = ProteusFeatureEmbedder_init ex2_encoder ex2_rpe ex2_w_s ex2_w_col ex2_w_row ex2_args \<and>
   encoder (input_feature_embedder ex2_embedder) (ex_features 2) (arg_or None Omitted) = Inr ex2_out \<and>
   shape (token_single ex2_out) = [1, 2, c_token ex2_embedder] \<and>
   relative_pos_encoder ex2_embedder (ex_features 2) (arg_or None Omitted) = Inr ex2_rel \<and>
   shape ex2_rel = [1, 2, 2, c_trunk_pair ex2_embedder] \<and>
   (0::nat) < 1 \<and> (0::nat) < 2 \<and> (1::nat) < 2 \<and> 2 < c_trunk_pair ex2_embedder \<and>
   ProteusFeatureEmbedder_forward ex2_embedder (ex_features 2) Omitted Omitted = Inr ex2_result \<and>
   s_inputs ex2_result = token_single ex2_out \<and>
   shape (z_trunk ex2_result) = [1, 2, 2, c_trunk_pair ex2_embedder] \<and>
   bias (linear_z_col ex2_embedder) = None \<and> bias (linear_z_row ex2_embedder) = None \<and>
   affine (linear_z_col ex2_embedder) (token_single ex2_out) [0, 0] 2 =
     sum_list (map (\<lambda>k. ex2_w_col 2 k * elem (token_single ex2_out) [0, 0, k])
       [0..<c_token ex2_embedder]) \<and>
   affine (linear_z_row ex2_embedder) (token_single ex2_out) [0, 1] 2 =
     sum_list (map (\<lambda>k. ex2_w_row 2 k * elem (token_single ex2_out) [0, 1, k])
       [0..<c_token ex2_embedder]) \<and>
   elem (z_trunk ex2_result) [0, 0, 1, 2] =
     affine (linear_z_col ex2_embedder) (token_single ex2_out) [0, 0] 2 +
     affine (linear_z_row ex2_embedder) (token_single ex2_out) [0, 1] 2 +
     elem ex2_rel [0, 0, 1, 2] \<and>
   affine (linear_z_col ex2_embedder) (token_single ex2_out) [0, 0] 2 = 92 \<and>
   affine (linear_z_row ex2_embedder) (token_single ex2_out) [0, 1] 2 = 33 \<and>
   elem ex2_rel [0, 0, 1, 2] = - 3 \<and>
   elem (z_trunk ex2_result) [0, 0, 1, 2] = 122 \<and>
   encoder (input_feature_embedder ex2_embedder) ex_same_residue (arg_or None Omitted) = Inr ex2_out \<and>
   relative_pos_encoder ex2_embedder ex_same_residue (arg_or None Omitted) = Inr ex2_rel_zero \<and>
   shape ex2_rel_zero = [1, 2, 2, c_trunk_pair ex2_embedder] \<and>
   elem ex2_rel_zero [0, 0, 1, 2] = 0 \<and>
   ProteusFeatureEmbedder_forward ex2_embedder ex_same_residue Omitted Omitted = Inr ex2_result_zero \<and>
   elem (z_trunk ex2_result_zero) [0, 0, 1, 2] =
     affine (linear_z_col ex2_embedder) (token_single ex2_out) [0, 0] 2 +
     affine (linear_z_row ex2_embedder) (token_single ex2_out) [0, 1] 2 \<and>
   elem (z_trunk ex2_result_zero) [0, 0, 1, 2] = 125"
proof -
  have h1: "ex2_embedder =
      ProteusFeatureEmbedder_init ex2_encoder ex2_rpe ex2_w_s ex2_w_col ex2_w_row ex2_args"
    by (simp add: ex2_embedder_def)
  have h2: "encoder (input_feature_embedder ex2_embedder) (ex_features 2) (arg_or None Omitted) =
      Inr ex2_out"
    by code_simp
  have h3: "shape (token_single ex2_out) = [1, 2, c_token ex2_embedder]"
    by code_simp
  have h4: "relative_pos_encoder ex2_embedder (ex_features 2) (arg_or None Omitted) = Inr ex2_rel"
    by code_simp
  have h5: "shape ex2_rel = [1, 2, 2, c_trunk_pair ex2_embedder]"
    by code_simp
  have h6: "(0::nat) < 1" "(0::nat) < 2" "(1::nat) < 2" "2 < c_trunk_pair ex2_embedder"
    by code_simp+
  have fw: "ProteusFeatureEmbedder_forward ex2_embedder (ex_features 2) Omitted Omitted =
      Inr ex2_result"
    by code_simp
  have k2: "encoder (input_feature_embedder ex2_embedder) ex_same_residue (arg_or None Omitted) =
      Inr ex2_out"
    by code_simp
  have k4: "relative_pos_encoder ex2_embedder ex_same_residue (arg_or None Omitted) =
      Inr ex2_rel_zero"
    by code_simp
  have k5: "shape ex2_rel_zero = [1, 2, 2, c_trunk_pair ex2_embedder]"
    by code_simp
  have k6: "elem ex2_rel_zero [0, 0, 1, 2] = 0"
    by code_simp
  have fz: "ProteusFeatureEmbedder_forward ex2_embedder ex_same_residue Omitted Omitted =
      Inr ex2_result_zero"
    by code_simp
  have n: "affine (linear_z_col ex2_embedder) (token_single ex2_out) [0, 0] 2 = 92"
      "affine (linear_z_row ex2_embedder) (token_single ex2_out) [0, 1] 2 = 33"
      "elem ex2_rel [0, 0, 1, 2] = - 3"
      "elem (z_trunk ex2_result) [0, 0, 1, 2] = 122"
      "elem (z_trunk ex2_result_zero) [0, 0, 1, 2] = 125"
    by code_simp+
  from C1_pair_trunk_entry[OF h1 h2 h3 h4 h5 h6] fw
  have a: "s_inputs ex2_result = token_single ex2_out \<and>
      shape (z_trunk ex2_result) = [1, 2, 2, c_trunk_pair ex2_embedder] \<and>
      bias (linear_z_col ex2_embedder) = None \<and> bias (linear_z_row ex2_embedder) = None \<and>
      affine (linear_z_col ex2_embedder) (token_single ex2_out) [0, 0] 2 =
        sum_list (map (\<lambda>k. ex2_w_col 2 k * elem (token_single ex2_out) [0, 0, k])
          [0..<c_token ex2_embedder]) \<and>
      affine (linear_z_row ex2_embedder) (token_single ex2_out) [0, 1] 2 =
        sum_list (map (\<lambda>k. ex2_w_row 2 k * elem (token_single ex2_out) [0, 1, k])
          [0..<c_token ex2_embedder]) \<and>
      elem (z_trunk ex2_result) [0, 0, 1, 2] =
        affine (linear_z_col ex2_embedder) (token_single ex2_out) [0, 0] 2 +
        affine (linear_z_row ex2_embedder) (token_single ex2_out) [0, 1] 2 +
        elem ex2_rel [0, 0, 1, 2]"
    by auto
  from C1_pair_trunk_entry[OF h1 k2 h3 k4 k5 h6] fz k6
  have b: "elem (z_trunk ex2_result_zero) [0, 0, 1, 2] =
      affine (linear_z_col ex2_embedder) (token_single ex2_out) [0, 0] 2 +
      affine (linear_z_row ex2_embedder) (token_single ex2_out) [0, 1] 2"
    by auto
  show ?thesis
    by (intro conjI h1 h2 h3 h4 h5 h6 fw k2 k4 k5 k6 fz n a[THEN conjunct1]
        a[THEN conjunct2, THEN conjunct1] a[THEN conjunct2, THEN conjunct2, THEN conjunct1]
        a[THEN conjunct2, THEN conjunct2, THEN conjunct2, THEN conjunct1]
        a[THEN conjunct2, THEN conjunct2, THEN conjunct2, THEN conjunct2, THEN conjunct1]
        a[THEN conjunct2, THEN conjunct2, THEN conjunct2, THEN conjunct2, THEN conjunct2, THEN conjunct1]
        a[THEN conjunct2, THEN conjunct2, THEN conjunct2, THEN conjunct2, THEN conjunct2, THEN conjunct2]
        b)
qed

text \<open>
  The roles of the two layers are fixed.  On the small embedder (weight 10 in
  \<open>linear_z_col\<close>, weight 1 in \<open>linear_z_row\<close>, tokens 1 and 2, bias \<open>-1\<close> at the pair
  \<open>(0, 1)\<close>) the entry at \<open>(0, 1)\<close> is \<open>10 * 1 + 1 * 2 - 1 = 11\<close>; with the two layers
  exchanged it would be \<open>1 * 1 + 10 * 2 - 1 = 20\<close>.
\<close>

lemma pair_projections_not_interchangeable:
  "ProteusFeatureEmbedder_forward ex_embedder (ex_features 2) Omitted Omitted = Inr ex_result \<and>
   relative_pos_encoder ex_embedder (ex_features 2) None = Inr ex_rel \<and>
   elem (z_trunk ex_result) [0, 0, 1, 0] = 11 \<and>
   affine (linear_z_row ex_embedder) (s_inputs ex_result) [0, 0] 0 +
   affine (linear_z_col ex_embedder) (s_inputs ex_result) [0, 1] 0 +
   elem ex_rel [0, 0, 1, 0] = 20"
  by code_simp

text \<open>
  C2.  When the atom attention encoder returns an output for the features and the mask,
  \<open>InputFeatureEmbedder.forward\<close> returns exactly the field \<open>token_single\<close> of that output,
  with nothing applied to it; when the encoder keeps its contract of a tensor of shape
  \<open>[*, N_tokens, c_token]\<close>, that is the shape of the result.
\<close>

theorem C2_input_embedder_returns_token_single:
  assumes enc: "encoder self features (arg_or None atom_mask) = Inr output"
    and sh: "shape (token_single output) = lead @ [n_tokens self, c_token self]"
  shows "\<exists>t. InputFeatureEmbedder_forward self features atom_mask = Inr t \<and>
           t = token_single output \<and> shape t = lead @ [n_tokens self, c_token self]"
  using enc sh by (simp add: InputFeatureEmbedder_forward_def)

theorem C2_input_embedder_returns_token_single_witness:
  "encoder (input_feature_embedder ex_embedder) (ex_features 2) (arg_or None Omitted) = Inr ex_out \<and>
   shape (token_single ex_out) =
     [1] @ [n_tokens (input_feature_embedder ex_embedder), c_token (input_feature_embedder ex_embedder)] \<and>
   (\<exists>t. InputFeatureEmbedder_forward (input_feature_embedder ex_embedder) (ex_features 2) Omitted = Inr t \<and>
      t = token_single ex_out \<and>
      shape t = [1] @ [n_tokens (input_feature_embedder ex_embedder),
                       c_token (input_feature_embedder ex_embedder)])"
proof -
  have h1: "encoder (input_feature_embedder ex_embedder) (ex_features 2) (arg_or None Omitted) = Inr ex_out"
    by code_simp
  have h2: "shape (token_single ex_out) =
     [1] @ [n_tokens (input_feature_embedder ex_embedder), c_token (input_feature_embedder ex_embedder)]"
    by code_simp
  show ?thesis
    using C2_input_embedder_returns_token_single[OF h1 h2] h1 h2 by blast
qed



text \<open>
  C5 (amended).  The addition of the relative position bias follows the broadcasting rule
  of the tensor library.  When a token count or the channel width of the bias differs from
  the one of the projected pair tensor and neither of the two sizes is 1, the call fails
  with the library's \<open>RuntimeError\<close> and returns no output at all.
\<close>

theorem C5_incompatible_bias_fails:
  assumes P: "P = ProteusFeatureEmbedder_init ENC RPE w_s w_col w_row args"
    and enc: "encoder (input_feature_embedder P) features (arg_or None atom_mask) = Inr out"
    and sh: "shape (token_single out) = [B, N, c_token P]"
    and rpe: "relative_pos_encoder P features (arg_or None token_mask) = Inr rel"
    and shr: "shape rel = [B', N1, N2, C']"
    and mismatch: "(N1 \<noteq> N \<and> N1 \<noteq> 1 \<and> N \<noteq> 1) \<or> (N2 \<noteq> N \<and> N2 \<noteq> 1 \<and> N \<noteq> 1) \<or>
                   (C' \<noteq> c_trunk_pair P \<and> C' \<noteq> 1 \<and> c_trunk_pair P \<noteq> 1)"
  shows "ProteusFeatureEmbedder_forward P features atom_mask token_mask = Inl RuntimeError"
proof -
  note f = Proteus_init_fields[OF P]
  have fw: "ProteusFeatureEmbedder_forward P features atom_mask token_mask =
     bind_err (tensor_add (tabulate [B, N, N, c_trunk_pair P] (\<lambda>idx.
         affine (linear_z_col P) (token_single out) [idx ! 0, idx ! 1] (idx ! 3) +
         affine (linear_z_row P) (token_single out) [idx ! 0, idx ! 2] (idx ! 3))) rel)
       (\<lambda>z. Inr \<lparr>s_inputs = token_single out,
                 s_trunk = tabulate [B, N, out_features (linear_s_init P)]
                   (\<lambda>idx. affine (linear_s_init P) (token_single out) (butlast idx) (last idx)),
                 z_trunk = z\<rparr>)"
    by (rule forward_rank3[OF enc sh _ _ _ _ _ rpe]) (simp_all add: f(4-6))
  have "broadcast_shapes [B, N, N, c_trunk_pair P] (shape rel) = None"
    unfolding shr by (rule broadcast4_mismatch[OF mismatch])
  then show ?thesis
    unfolding fw by (simp add: tensor_add_def)
qed

theorem C5_incompatible_bias_fails_witness:
  "ex_embedder = ProteusFeatureEmbedder_init ex_encoder ex_rpe
       (\<lambda>c k. 1) (\<lambda>c k. 10) (\<lambda>c k. 1) ex_args \<and>
   encoder (input_feature_embedder ex_embedder) (ex_features 3) (arg_or None Omitted) = Inr ex_out \<and>
   shape (token_single ex_out) = [1, 2, c_token ex_embedder] \<and>
   relative_pos_encoder ex_embedder (ex_features 3) (arg_or None Omitted) = Inr ex_rel_three \<and>
   shape ex_rel_three = [1, 3, 3, 1] \<and>
   (3::nat) \<noteq> 2 \<and> (3::nat) \<noteq> 1 \<and> (2::nat) \<noteq> 1 \<and>
   ProteusFeatureEmbedder_forward ex_embedder (ex_features 3) Omitted Omitted = Inl RuntimeError"
proof -
  have h1: "ex_embedder = ProteusFeatureEmbedder_init ex_encoder ex_rpe
       (\<lambda>c k. 1) (\<lambda>c k. 10) (\<lambda>c k. 1) ex_args"
    by (simp add: ex_embedder_def)
  have h2: "encoder (input_feature_embedder ex_embedder) (ex_features 3) (arg_or None Omitted) = Inr ex_out"
    by code_simp
  have h3: "shape (token_single ex_out) = [1, 2, c_token ex_embedder]"
    by code_simp
  have h4: "relative_pos_encoder ex_embedder (ex_features 3) (arg_or None Omitted) = Inr ex_rel_three"
    by code_simp
  have h5: "shape ex_rel_three = [1, 3, 3, 1]"
    by code_simp
  have h6: "((3::nat) \<noteq> 2 \<and> (3::nat) \<noteq> 1 \<and> (2::nat) \<noteq> 1) \<or>
            ((3::nat) \<noteq> 2 \<and> (3::nat) \<noteq> 1 \<and> (2::nat) \<noteq> 1) \<or>
            ((1::nat) \<noteq> c_trunk_pair ex_embedder \<and> (1::nat) \<noteq> 1 \<and> c_trunk_pair ex_embedder \<noteq> 1)"
    by simp
  show ?thesis
    using C5_incompatible_bias_fails[OF h1 h2 h3 h4 h5 h6] h1 h2 h3 h4 h5 by simp
qed

text \<open>
  The claim as stated lets every disagreement fail.  A bias with one token, added to the
  pair tensor of two tokens, is broadcast without any error: the call returns a pair trunk
  of shape \<open>[1, 2, 2, 1]\<close>.
\<close>

theorem C5_broadcast_bias_counterexample:
  "encoder (input_feature_embedder ex_embedder) (ex_features 1) None = Inr ex_out \<and>
   shape (token_single ex_out) = [1, 2, 1] \<and>
   relative_pos_encoder ex_embedder (ex_features 1) None = Inr ex_rel_one \<and>
   shape ex_rel_one = [1, 1, 1, 1] \<and>
   ProteusFeatureEmbedder_forward ex_embedder (ex_features 1) Omitted Omitted = Inr ex_result_one \<and>
   shape (z_trunk ex_result_one) = [1, 2, 2, 1]"
  by code_simp

text \<open>
  C8.  With the masks omitted both default to \<open>None\<close>.  When the encoder, applied to the
  features and \<open>None\<close>, returns an output of shape \<open>[B, N, c_token]\<close> and the relative
  position encoder, applied to the features and \<open>None\<close>, returns a bias of shape
  \<open>[B, N, N, c_trunk_pair]\<close>, then \<open>InputFeatureEmbedder.forward\<close> without a mask returns that
  encoder output's \<open>token_single\<close>, and \<open>ProteusFeatureEmbedder.forward\<close> without masks is the
  call that passes \<open>None\<close> for both and returns, without error, the three tensors in full:
  \<open>s_inputs\<close> is that \<open>token_single\<close>, \<open>s_trunk\<close> its projection, and \<open>z_trunk\<close> the outer sum
  plus that bias.
\<close>

theorem C8_masks_default_to_None:
  assumes P: "P = ProteusFeatureEmbedder_init ENC RPE w_s w_col w_row args"
    and enc: "encoder (input_feature_embedder P) features None = Inr out"
    and sh: "shape (token_single out) = [B, N, c_token P]"
    and rpe: "relative_pos_encoder P features None = Inr rel"
    and shr: "shape rel = [B, N, N, c_trunk_pair P]"
  shows "InputFeatureEmbedder_forward (input_feature_embedder P) features Omitted =
           Inr (token_single out) \<and>
         ProteusFeatureEmbedder_forward P features Omitted Omitted =
           ProteusFeatureEmbedder_forward P features (Given None) (Given None) \<and>
         ProteusFeatureEmbedder_forward P features Omitted Omitted =
           Inr \<lparr>s_inputs = token_single out,
                s_trunk = tabulate [B, N, c_token P]
                  (\<lambda>idx. affine (linear_s_init P) (token_single out) (butlast idx) (last idx)),
                z_trunk = tabulate [B, N, N, c_trunk_pair P] (\<lambda>idx.
                  affine (linear_z_col P) (token_single out) [idx ! 0, idx ! 1] (idx ! 3) +
                  affine (linear_z_row P) (token_single out) [idx ! 0, idx ! 2] (idx ! 3) +
                  elem rel idx)\<rparr>"
proof -
  have enc': "encoder (input_feature_embedder P) features (arg_or None Omitted) = Inr out"
    and rpe': "relative_pos_encoder P features (arg_or None Omitted) = Inr rel"
    using enc rpe by simp_all
  have a: "InputFeatureEmbedder_forward (input_feature_embedder P) features Omitted =
      Inr (token_single out)"
    by (simp add: InputFeatureEmbedder_forward_def enc)
  have b: "ProteusFeatureEmbedder_forward P features Omitted Omitted =
      ProteusFeatureEmbedder_forward P features (Given None) (Given None)"
    by (simp add: ProteusFeatureEmbedder_forward_def)
  from a b forward_full[OF P enc' sh rpe' shr] show ?thesis by simp
qed

text \<open>
  The second embedder's collaborators return something else when they are given a mask, so
  the result below is the one of the calls with \<open>None\<close>.
\<close>

theorem C8_masks_default_to_None_witness:
  "ex2_embedder = ProteusFeatureEmbedder_init ex2_encoder ex2_rpe ex2_w_s ex2_w_col ex2_w_row ex2_args \<and>
   encoder (input_feature_embedder ex2_embedder) (ex_features 2) None = Inr ex2_out \<and>
   shape (token_single ex2_out) = [1, 2, c_token ex2_embedder] \<and>
   relative_pos_encoder ex2_embedder (ex_features 2) None = Inr ex2_rel \<and>
   shape ex2_rel = [1, 2, 2, c_trunk_pair ex2_embedder] \<and>
   encoder (input_feature_embedder ex2_embedder) (ex_features 2) (Some ex2_rel_zero) =
     Inr \<lparr>token_single = ex2_rel_zero\<rparr> \<and>
   relative_pos_encoder ex2_embedder (ex_features 2) (Some ex2_rel_zero) = Inr ex2_rel_zero \<and>
   InputFeatureEmbedder_forward (input_feature_embedder ex2_embedder) (ex_features 2) Omitted =
     Inr (token_single ex2_out) \<and>
   ProteusFeatureEmbedder_forward ex2_embedder (ex_features 2) Omitted Omitted =
     ProteusFeatureEmbedder_forward ex2_embedder (ex_features 2) (Given None) (Given None) \<and>
   ProteusFeatureEmbedder_forward ex2_embedder (ex_features 2) Omitted Omitted =
     Inr \<lparr>s_inputs = token_single ex2_out,
          s_trunk = tabulate [1, 2, c_token ex2_embedder]
            (\<lambda>idx. affine (linear_s_init ex2_embedder) (token_single ex2_out) (butlast idx) (last idx)),
          z_trunk = tabulate [1, 2, 2, c_trunk_pair ex2_embedder] (\<lambda>idx.
            affine (linear_z_col ex2_embedder) (token_single ex2_out) [idx ! 0, idx ! 1] (idx ! 3) +
            affine (linear_z_row ex2_embedder) (token_single ex2_out) [idx ! 0, idx ! 2] (idx ! 3) +
            elem ex2_rel idx)\<rparr> \<and>
   ProteusFeatureEmbedder_forward ex2_embedder (ex_features 2) Omitted Omitted = Inr ex2_result"
proof -
  have h1: "ex2_embedder =
      ProteusFeatureEmbedder_init ex2_encoder ex2_rpe ex2_w_s ex2_w_col ex2_w_row ex2_args"
    by (simp add: ex2_embedder_def)
  have h2: "encoder (input_feature_embedder ex2_embedder) (ex_features 2) None = Inr ex2_out"
    by code_simp
  have h3: "shape (token_single ex2_out) = [1, 2, c_token ex2_embedder]"
    by code_simp
  have h4: "relative_pos_encoder ex2_embedder (ex_features 2) None = Inr ex2_rel"
    by code_simp
  have h5: "shape ex2_rel = [1, 2, 2, c_trunk_pair ex2_embedder]"
    by code_simp
  have m1: "encoder (input_feature_embedder ex2_embedder) (ex_features 2) (Some ex2_rel_zero) =
      Inr \<lparr>token_single = ex2_rel_zero\<rparr>"
    by code_simp
  have m2: "relative_pos_encoder ex2_embedder (ex_features 2) (Some ex2_rel_zero) = Inr ex2_rel_zero"
    by code_simp
  have fw: "ProteusFeatureEmbedder_forward ex2_embedder (ex_features 2) Omitted Omitted =
      Inr ex2_result"
    by code_simp
  note t = C8_masks_default_to_None[OF h1 h2 h3 h4 h5]
  show ?thesis
    by (intro conjI h1 h2 h3 h4 h5 m1 m2 fw t[THEN conjunct1]
        t[THEN conjunct2, THEN conjunct1] t[THEN conjunct2, THEN conjunct2])
qed





end
